theory Spec2Isabelle
  imports Complex_Main
begin

section \<open>Numbers and exceptions\<close>

text \<open>
  The bot (\<^verbatim>\<open>src/mm/bot.py\<close>, class \<^verbatim>\<open>MarketMaker\<close>) computes with Python floats.
  They are idealised here as real numbers: rounding of binary floats, infinities and NaN are
  outside the model. What is kept is every place where the arithmetic raises: float division
  by zero (\<^verbatim>\<open>ZeroDivisionError\<close>) and \<^verbatim>\<open>Decimal\<close> division by zero
  (\<^verbatim>\<open>decimal.DivisionByZero\<close>, or \<^verbatim>\<open>decimal.InvalidOperation\<close> for 0/0).
  Exceptions of the venue client are values of the same type; an HTTP error carries the
  \<^verbatim>\<open>status\<close> attribute that \<^verbatim>\<open>_cancel_all_orders\<close> inspects.
\<close>

datatype exn =
    ZeroDivisionError
  | DivisionByZero
  | InvalidOperation
  | ClientResponseError int
  | ValueError
  | OtherError

text \<open>\<^verbatim>\<open>hasattr(r, 'status') and r.status == 400\<close>\<close>

fun status_attr :: "exn \<Rightarrow> int option" where
  "status_attr (ClientResponseError s) = Some s"
| "status_attr _ = None"

definition bind_exn :: "exn + 'a \<Rightarrow> ('a \<Rightarrow> exn + 'b) \<Rightarrow> exn + 'b" where
  "bind_exn r f = (case r of Inl e \<Rightarrow> Inl e | Inr x \<Rightarrow> f x)"

text \<open>Python's \<^verbatim>\<open>a / b\<close> on floats.\<close>

definition float_div :: "real \<Rightarrow> real \<Rightarrow> exn + real" where
  "float_div a b = (if b = 0 then Inl ZeroDivisionError else Inr (a / b))"

text \<open>\<^verbatim>\<open>Decimal.to_integral_value(ROUND_DOWN)\<close>: truncation toward zero.\<close>

definition to_integral_value_ROUND_DOWN :: "real \<Rightarrow> real" where
  "to_integral_value_ROUND_DOWN x =
     (if 0 \<le> x then of_int \<lfloor>x\<rfloor> else of_int \<lceil>x\<rceil>)"

text \<open>
  \<^verbatim>\<open>MarketMaker._round\<close> (bot.py 28-32):
  \<^verbatim>\<open>float((v / t).to_integral_value(ROUND_DOWN) * t)\<close> on decimals. The source has no
  check of the tick; the only failure is the one of the decimal division.
\<close>

definition round_tick :: "real \<Rightarrow> real \<Rightarrow> exn + real" where
  "round_tick v t =
     (if t = 0 then (if v = 0 then Inl InvalidOperation else Inl DivisionByZero)
      else Inr (to_integral_value_ROUND_DOWN (v / t) * t))"

section \<open>Risk controller\<close>

text \<open>\<^verbatim>\<open>MarketMaker._should_take_profit\<close> (bot.py 55-80).\<close>

definition should_take_profit :: "real \<Rightarrow> real \<Rightarrow> real \<Rightarrow> exn + bool" where
  "should_take_profit position_qty mark_price avg_entry_price =
     (if \<bar>position_qty\<bar> < 0.0001 \<or> avg_entry_price = 0 then Inr False
      else
        let unrealized_pnl = position_qty * (mark_price - avg_entry_price) in
        if unrealized_pnl > 0.08 then Inr True
        else
          bind_exn (float_div (mark_price - avg_entry_price) avg_entry_price) (\<lambda>d.
            let price_move_pct = d * 100;
                favorable_move =
                  ((position_qty > 0 \<and> price_move_pct > 0.5) \<or>
                   (position_qty < 0 \<and> price_move_pct < - 0.5))
            in if favorable_move then Inr True else Inr False))"


text \<open>\<^verbatim>\<open>MarketMaker._should_stop_quoting\<close> (bot.py 104-125).\<close>

definition should_stop_quoting :: "real \<Rightarrow> real \<Rightarrow> bool" where
  "should_stop_quoting position_qty mark_price =
     (let COLLATERAL_USD = 100 :: real;
          MAX_LEVERAGE = 8 :: real;
          STOP_THRESHOLD = 0.6 :: real;
          REFERENCE_ETH_PRICE = 2000 :: real;
          max_notional = COLLATERAL_USD * MAX_LEVERAGE;
          max_position_eth = max_notional / REFERENCE_ETH_PRICE;
          stop_position = max_position_eth * STOP_THRESHOLD
      in if \<bar>position_qty\<bar> > stop_position then True else False)"

section \<open>Engine state and the requote decision\<close>

text \<open>The fields of \<^verbatim>\<open>MarketMaker\<close> set in \<^verbatim>\<open>__init__\<close> (bot.py 15-26).\<close>

record bot_state =
  price_tick :: real
  qty_tick :: real
  current_bid_price :: "real option"
  current_ask_price :: "real option"
  last_position_qty :: real

text \<open>\<^verbatim>\<open>MarketMaker._should_update_quotes\<close> (bot.py 204-228).\<close>

definition should_update_quotes :: "bot_state \<Rightarrow> real \<Rightarrow> real \<Rightarrow> bool" where
  "should_update_quotes st mark_price position_qty =
     (case current_bid_price st of
        None \<Rightarrow> True
      | Some bid \<Rightarrow>
         (case current_ask_price st of
            None \<Rightarrow> True
          | Some ask \<Rightarrow>
             if \<bar>position_qty - last_position_qty st\<bar> > qty_tick st * 2 then True
             else
               let spread_width = ask - bid;
                   price_move_threshold = spread_width * 0.6
               in if mark_price > ask + price_move_threshold then True
                  else if mark_price < bid - price_move_threshold then True
                  else False))"

section \<open>The venue client\<close>

text \<open>
  The exchange client (\<^verbatim>\<open>mm.client.OrderlyClient\<close>) is an external collaborator. It is a
  parameter of the model: a record of operations over an abstract venue state \<open>'v\<close>, each
  returning its result (\<open>Inl\<close> an exception, \<open>Inr\<close> a value) and the next venue state.
  An order and a position are the dictionaries the client returns; the bot reads only the
  keys \<^verbatim>\<open>order_id\<close>, \<^verbatim>\<open>position_qty\<close> and \<^verbatim>\<open>average_open_price\<close>.
\<close>

datatype side = BUY | SELL

type_synonym order = "string \<rightharpoonup> int"

type_synonym position = "string \<rightharpoonup> real"

record 'v client =
  get_mark_price :: "'v \<Rightarrow> (exn + real) \<times> 'v"
  get_position :: "'v \<Rightarrow> (exn + position) \<times> 'v"
  get_open_orders :: "'v \<Rightarrow> (exn + order list) \<times> 'v"
  create_order :: "side \<Rightarrow> real \<Rightarrow> real \<Rightarrow> 'v \<Rightarrow> (exn + unit) \<times> 'v"
  cancel_order :: "int \<Rightarrow> 'v \<Rightarrow> (exn + unit) \<times> 'v"

text \<open>
  Every request the bot sends is recorded, in order, next to the venue state, so that
  "no order placement was attempted" is a statement about the trace.
\<close>

datatype call =
    GetMarkPrice
  | GetPosition
  | GetOpenOrders
  | CreateOrder side real real
  | CancelOrder int

record 'v world =
  venue :: 'v
  trace :: "call list"

definition request :: "call \<Rightarrow> ('v \<Rightarrow> 'r \<times> 'v) \<Rightarrow> 'v world \<Rightarrow> 'r \<times> 'v world" where
  "request k f w =
     (case f (venue w) of (r, v') \<Rightarrow> (r, \<lparr>venue = v', trace = trace w @ [k]\<rparr>))"

fun is_create :: "call \<Rightarrow> bool" where
  "is_create (CreateOrder sd p q) = True"
| "is_create _ = False"

text \<open>The \<^verbatim>\<open>create_order\<close> requests of a trace, in order.\<close>

definition placements :: "call list \<Rightarrow> call list" where
  "placements cs = filter is_create cs"

section \<open>Market state sampler\<close>

text \<open>
  \<^verbatim>\<open>MarketMaker._get_position\<close> (bot.py 41-53): \<^verbatim>\<open>dict.get\<close> with default 0.0, and
  \<open>(0.0, 0.0)\<close> on any exception.
\<close>

definition get_position_mm :: "'v client \<Rightarrow> 'v world \<Rightarrow> (real \<times> real) \<times> 'v world" where
  "get_position_mm c w =
     (case request GetPosition (get_position c) w of
        (Inl e, w1) \<Rightarrow> ((0, 0), w1)
      | (Inr pos, w1) \<Rightarrow>
          (let qty = (case pos ''position_qty'' of None \<Rightarrow> 0 | Some x \<Rightarrow> x);
               avg_price = (case pos ''average_open_price'' of None \<Rightarrow> 0 | Some x \<Rightarrow> x)
           in ((qty, avg_price), w1)))"

section \<open>Order lifecycle\<close>

text \<open>\<^verbatim>\<open>[o["order_id"] for o in orders if "order_id" in o]\<close>\<close>

fun order_ids_of :: "order list \<Rightarrow> int list" where
  "order_ids_of [] = []"
| "order_ids_of (x # xs) =
     (case x ''order_id'' of None \<Rightarrow> order_ids_of xs | Some i \<Rightarrow> i # order_ids_of xs)"

text \<open>
  \<^verbatim>\<open>asyncio.gather(*cancel_tasks, return_exceptions=True)\<close>: one \<^verbatim>\<open>cancel_order\<close>
  request per id; the results come back in the order of the ids and no exception
  propagates. The requests are issued in list order (the interleaving of the
  in-flight requests at the venue is not modelled).
\<close>

fun gather_cancel :: "'v client \<Rightarrow> int list \<Rightarrow> 'v world \<Rightarrow> (exn + unit) list \<times> 'v world" where
  "gather_cancel c [] w = ([], w)"
| "gather_cancel c (i # ids) w =
     (case request (CancelOrder i) (cancel_order c i) w of
        (r, w1) \<Rightarrow> (case gather_cancel c ids w1 of (rs, w2) \<Rightarrow> (r # rs, w2)))"

text \<open>The test of the result loop (bot.py 159-166) that puts \<open>r\<close> into \<^verbatim>\<open>failed_non_400\<close>.\<close>

fun failed_non_400 :: "exn + unit \<Rightarrow> bool" where
  "failed_non_400 (Inr u) = False"
| "failed_non_400 (Inl e) = (status_attr e \<noteq> Some 400)"

text \<open>
  \<^verbatim>\<open>MarketMaker._cancel_all_orders\<close> (bot.py 128-202). Every exception of a
  \<^verbatim>\<open>get_open_orders\<close> request lands in the final \<^verbatim>\<open>except\<close> and gives \<open>False\<close>.
  The two \<^verbatim>\<open>asyncio.sleep\<close> calls are not modelled (no clock).
\<close>

definition cancel_all_orders :: "'v client \<Rightarrow> 'v world \<Rightarrow> bool \<times> 'v world" where
  "cancel_all_orders c w =
     (case request GetOpenOrders (get_open_orders c) w of
        (Inl e, w1) \<Rightarrow> (False, w1)
      | (Inr orders, w1) \<Rightarrow>
          if orders = [] then (True, w1)
          else
            let order_ids = order_ids_of orders in
            if order_ids = [] then (False, w1)
            else
              (case gather_cancel c order_ids w1 of
                 (results, w2) \<Rightarrow>
                   if filter failed_non_400 results \<noteq> [] then (False, w2)
                   else
                     (case request GetOpenOrders (get_open_orders c) w2 of
                        (Inl e, w3) \<Rightarrow> (False, w3)
                      | (Inr remaining_orders, w3) \<Rightarrow>
                          if remaining_orders \<noteq> [] then
                            let remaining_ids = order_ids_of remaining_orders in
                            if remaining_ids \<noteq> [] then
                              (case gather_cancel c remaining_ids w3 of
                                 (results_2, w4) \<Rightarrow>
                                   (case request GetOpenOrders (get_open_orders c) w4 of
                                      (Inl e, w5) \<Rightarrow> (False, w5)
                                    | (Inr final_check, w5) \<Rightarrow>
                                        if final_check \<noteq> [] then (False, w5)
                                        else (True, w5)))
                            else (True, w3)
                          else (True, w3))))"

text \<open>
  \<^verbatim>\<open>MarketMaker._close_position\<close> (bot.py 82-101). The price is rounded to the price
  tick; the quantity is \<^verbatim>\<open>abs(position_qty)\<close> as it is. The \<^verbatim>\<open>try\<close> block swallows every
  exception, of the rounding and of the request.
\<close>

definition close_position :: "'v client \<Rightarrow> bot_state \<Rightarrow> real \<Rightarrow> real \<Rightarrow> 'v world \<Rightarrow> 'v world" where
  "close_position c st position_qty mark_price w =
     (if \<bar>position_qty\<bar> < 0.0001 then w
      else
        let sd = (if position_qty > 0 then SELL else BUY);
            quantity = \<bar>position_qty\<bar>;
            close_price = (if sd = SELL then mark_price * 0.999 else mark_price * 1.001)
        in case round_tick close_price (price_tick st) of
             Inl e \<Rightarrow> w
           | Inr close_price \<Rightarrow>
               snd (request (CreateOrder sd close_price quantity)
                      (create_order c sd close_price quantity) w))"

section \<open>Quote engine\<close>

text \<open>The fields of \<^verbatim>\<open>Config\<close> (config.py) that the bot reads.\<close>

record config =
  spread_bps :: real
  order_size_usd :: real
  refresh_interval :: real
  dry_run :: bool

record quotes =
  bid_price :: real
  bid_quantity :: real
  ask_price :: real
  ask_quantity :: real

text \<open>
  The first half of \<^verbatim>\<open>MarketMaker._place_quotes\<close> (bot.py 238-289): the prices and
  quantities of the two orders, with the dynamic loss protection. It runs before the
  \<^verbatim>\<open>try\<close> block, so an exception of the arithmetic leaves \<^verbatim>\<open>_place_quotes\<close>.
\<close>

definition quote_prices :: "config \<Rightarrow> bot_state \<Rightarrow> real \<Rightarrow> real \<Rightarrow> real \<Rightarrow> exn + quotes" where
  "quote_prices cfg st mark_price position_qty avg_entry_price =
     (let unrealized_pnl =
            (if \<bar>position_qty\<bar> > 0.0001 \<and> avg_entry_price > 0
             then position_qty * (mark_price - avg_entry_price) else 0);
          base_spread_bps = spread_bps cfg;
          bid_spread_bps = base_spread_bps;
          ask_spread_bps = base_spread_bps
      in
      bind_exn (round_tick (mark_price * (1 - bid_spread_bps / 10000)) (price_tick st)) (\<lambda>bid_price0.
      bind_exn (round_tick (mark_price * (1 + ask_spread_bps / 10000)) (price_tick st)) (\<lambda>ask_price0.
      let mid_price = (bid_price0 + ask_price0) / 2 in
      bind_exn (float_div (order_size_usd cfg) mid_price) (\<lambda>size.
      bind_exn (round_tick size (qty_tick st)) (\<lambda>bid_quantity0.
      let ask_quantity0 = bid_quantity0 in
      if unrealized_pnl < 0 \<and> \<bar>position_qty\<bar> > 0.0001 then
        let PROFIT_TARGET = 0.05 :: real in
        bind_exn (float_div PROFIT_TARGET \<bar>position_qty\<bar>) (\<lambda>price_offset.
        if position_qty < 0 then
          if bid_price0 > avg_entry_price then
            bind_exn (round_tick (avg_entry_price - price_offset) (price_tick st)) (\<lambda>bid_price1.
            bind_exn (round_tick \<bar>position_qty\<bar> (qty_tick st)) (\<lambda>bid_quantity1.
            let ask_spread_bps1 = base_spread_bps * 2 in
            bind_exn (round_tick (mark_price * (1 + ask_spread_bps1 / 10000)) (price_tick st)) (\<lambda>ask_price1.
            Inr \<lparr>bid_price = bid_price1, bid_quantity = bid_quantity1,
                 ask_price = ask_price1, ask_quantity = ask_quantity0\<rparr>)))
          else
            Inr \<lparr>bid_price = bid_price0, bid_quantity = bid_quantity0,
                 ask_price = ask_price0, ask_quantity = ask_quantity0\<rparr>
        else if position_qty > 0 then
          if ask_price0 < avg_entry_price then
            bind_exn (round_tick (avg_entry_price + price_offset) (price_tick st)) (\<lambda>ask_price1.
            bind_exn (round_tick \<bar>position_qty\<bar> (qty_tick st)) (\<lambda>ask_quantity1.
            let bid_spread_bps1 = base_spread_bps * 2 in
            bind_exn (round_tick (mark_price * (1 - bid_spread_bps1 / 10000)) (price_tick st)) (\<lambda>bid_price1.
            Inr \<lparr>bid_price = bid_price1, bid_quantity = bid_quantity0,
                 ask_price = ask_price1, ask_quantity = ask_quantity1\<rparr>)))
          else
            Inr \<lparr>bid_price = bid_price0, bid_quantity = bid_quantity0,
                 ask_price = ask_price0, ask_quantity = ask_quantity0\<rparr>
        else
          Inr \<lparr>bid_price = bid_price0, bid_quantity = bid_quantity0,
               ask_price = ask_price0, ask_quantity = ask_quantity0\<rparr>)
      else
        Inr \<lparr>bid_price = bid_price0, bid_quantity = bid_quantity0,
             ask_price = ask_price0, ask_quantity = ask_quantity0\<rparr>)))))"

text \<open>
  \<^verbatim>\<open>MarketMaker._place_quotes\<close> (bot.py 230-327). In dry-run mode both quote prices are
  stored and no request is sent. Otherwise the two \<^verbatim>\<open>create_order\<close> requests are
  gathered with \<^verbatim>\<open>return_exceptions=True\<close> and each side is stored only when its own
  request did not fail.
\<close>

definition place_quotes ::
  "'v client \<Rightarrow> config \<Rightarrow> bot_state \<Rightarrow> real \<Rightarrow> real \<Rightarrow> real \<Rightarrow> 'v world
     \<Rightarrow> (exn + bot_state) \<times> 'v world" where
  "place_quotes c cfg st mark_price position_qty avg_entry_price w =
     (case quote_prices cfg st mark_price position_qty avg_entry_price of
        Inl e \<Rightarrow> (Inl e, w)
      | Inr q \<Rightarrow>
          if dry_run cfg then
            (Inr (st\<lparr>current_bid_price := Some (bid_price q),
                      current_ask_price := Some (ask_price q)\<rparr>), w)
          else
            (case request (CreateOrder BUY (bid_price q) (bid_quantity q))
                    (create_order c BUY (bid_price q) (bid_quantity q)) w of
               (bid_result, w1) \<Rightarrow>
                 (case request (CreateOrder SELL (ask_price q) (ask_quantity q))
                         (create_order c SELL (ask_price q) (ask_quantity q)) w1 of
                    (ask_result, w2) \<Rightarrow>
                      let st1 = (case bid_result of
                                   Inl e \<Rightarrow> st
                                 | Inr u \<Rightarrow> st\<lparr>current_bid_price := Some (bid_price q)\<rparr>);
                          st2 = (case ask_result of
                                   Inl e \<Rightarrow> st1
                                 | Inr u \<Rightarrow> st1\<lparr>current_ask_price := Some (ask_price q)\<rparr>)
                      in (Inr st2, w2))))"

section \<open>Control loop\<close>

text \<open>
  One iteration of the \<^verbatim>\<open>while True\<close> loop of \<^verbatim>\<open>MarketMaker.run\<close> (bot.py 340-392).
  The result is the engine state, the world and the seconds slept at the end of the
  iteration: 2 after a take-profit close, the refresh interval after the other branches,
  5 after an exception caught at the loop boundary.
\<close>

definition tick :: "'v client \<Rightarrow> config \<Rightarrow> bot_state \<Rightarrow> 'v world \<Rightarrow> bot_state \<times> 'v world \<times> real" where
  "tick c cfg st w =
     (case request GetMarkPrice (get_mark_price c) w of
        (Inl e, w1) \<Rightarrow> (st, w1, 5)
      | (Inr mark_price, w1) \<Rightarrow>
          (case get_position_mm c w1 of
             ((position_qty, avg_entry_price), w2) \<Rightarrow>
               (case should_take_profit position_qty mark_price avg_entry_price of
                  Inl e \<Rightarrow> (st, w2, 5)
                | Inr take_profit \<Rightarrow>
                    if take_profit then
                      (case cancel_all_orders c w2 of
                         (cancelled, w3) \<Rightarrow>
                           (st, close_position c st position_qty mark_price w3, 2))
                    else if should_stop_quoting position_qty mark_price then
                      (case cancel_all_orders c w2 of
                         (cancelled, w3) \<Rightarrow> (st, w3, refresh_interval cfg))
                    else
                      let should_update = should_update_quotes st mark_price position_qty in
                      if should_update then
                        (case cancel_all_orders c w2 of
                           (cancel_success, w3) \<Rightarrow>
                             if cancel_success then
                               (case place_quotes c cfg st mark_price position_qty
                                       avg_entry_price w3 of
                                  (Inl e, w4) \<Rightarrow> (st, w4, 5)
                                | (Inr st1, w4) \<Rightarrow>
                                    (st1\<lparr>last_position_qty := position_qty\<rparr>, w4,
                                     refresh_interval cfg))
                             else (st, w3, refresh_interval cfg))
                      else (st, w2, refresh_interval cfg))))"

section \<open>The specification's wording of the requote rule\<close>


section \<open>A replay venue\<close>

text \<open>
  A concrete client on which the theorems below are instantiated: the venue state is a
  script of the responses still to come, one list per operation. A request takes the head
  of its list; an exhausted list answers with an exception.
\<close>

record script =
  mark_prices :: "(exn + real) list"
  positions :: "(exn + position) list"
  open_orders :: "(exn + order list) list"
  creates :: "(exn + unit) list"
  cancels :: "(exn + unit) list"

definition replay :: "script client" where
  "replay =
     \<lparr>get_mark_price = (\<lambda>v. case mark_prices v of
          [] \<Rightarrow> (Inl OtherError, v) | r # rs \<Rightarrow> (r, v\<lparr>mark_prices := rs\<rparr>)),
      get_position = (\<lambda>v. case positions v of
          [] \<Rightarrow> (Inl OtherError, v) | r # rs \<Rightarrow> (r, v\<lparr>positions := rs\<rparr>)),
      get_open_orders = (\<lambda>v. case open_orders v of
          [] \<Rightarrow> (Inl OtherError, v) | r # rs \<Rightarrow> (r, v\<lparr>open_orders := rs\<rparr>)),
      create_order = (\<lambda>sd p q v. case creates v of
          [] \<Rightarrow> (Inl OtherError, v) | r # rs \<Rightarrow> (r, v\<lparr>creates := rs\<rparr>)),
      cancel_order = (\<lambda>i v. case cancels v of
          [] \<Rightarrow> (Inl OtherError, v) | r # rs \<Rightarrow> (r, v\<lparr>cancels := rs\<rparr>))\<rparr>"

definition start :: "script \<Rightarrow> script world" where
  "start v = \<lparr>venue = v, trace = []\<rparr>"

text \<open>An order dictionary with the single key \<^verbatim>\<open>order_id\<close>.\<close>

definition order_with_id :: "int \<Rightarrow> order" where
  "order_with_id i = [''order_id'' \<mapsto> i]"

text \<open>Tick sizes 0.01 and 0.001, no quotes yet: the state after \<^verbatim>\<open>_load_market_info\<close>.\<close>

definition fresh_state :: bot_state where
  "fresh_state =
     \<lparr>price_tick = 0.01, qty_tick = 0.001, current_bid_price = None,
      current_ask_price = None, last_position_qty = 0\<rparr>"

text \<open>
  The configuration that \<^verbatim>\<open>load_config\<close> (config.py) builds from an empty environment
  (spread 10 bps, order size 50 USD, refresh every 5 seconds, dry run on), and the same with
  dry run off.
\<close>

definition default_config :: config where
  "default_config =
     \<lparr>spread_bps = 10, order_size_usd = 50, refresh_interval = 5, dry_run = True\<rparr>"

definition live_config :: config where
  "live_config =
     \<lparr>spread_bps = 10, order_size_usd = 50, refresh_interval = 5, dry_run = False\<rparr>"

text \<open>The scripts of the scenarios used below.\<close>

definition script0 :: script where
  "script0 =
     \<lparr>mark_prices = [], positions = [], open_orders = [], creates = [], cancels = []\<rparr>"

text \<open>
  Mark 2000, a long position of 0.05 entered at 2000, no resting order, both placements
  accepted.
\<close>

definition quiet_venue :: script where
  "quiet_venue = script0\<lparr>mark_prices := [Inr 2000],
     positions := [Inr [''position_qty'' \<mapsto> 1/20, ''average_open_price'' \<mapsto> 2000]],
     open_orders := [Inr []],
     creates := [Inr (), Inr ()]\<rparr>"

text \<open>The same market, with a resting order 7 that is still listed after both cancel rounds.\<close>

definition stale_venue :: script where
  "stale_venue = script0\<lparr>mark_prices := [Inr 2000],
     positions := [Inr [''position_qty'' \<mapsto> 1/20, ''average_open_price'' \<mapsto> 2000]],
     open_orders := [Inr [order_with_id 7], Inr [order_with_id 7], Inr [order_with_id 7]],
     cancels := [Inr (), Inr ()],
     creates := [Inr (), Inr ()]\<rparr>"





section \<open>Tick rounding\<close>

lemma to_integral_value_ROUND_DOWN_int:
  "\<exists>k::int. to_integral_value_ROUND_DOWN x = of_int k"
  by (simp add: to_integral_value_ROUND_DOWN_def)

lemma to_integral_value_ROUND_DOWN_bounds:
  fixes x :: real
  defines "k \<equiv> to_integral_value_ROUND_DOWN x"
  shows "\<bar>k\<bar> \<le> \<bar>x\<bar>" and "\<bar>x\<bar> < \<bar>k\<bar> + 1" and "0 \<le> k * x"
proof -
  show "\<bar>k\<bar> \<le> \<bar>x\<bar>"
    unfolding k_def to_integral_value_ROUND_DOWN_def by (auto; linarith)
  show "\<bar>x\<bar> < \<bar>k\<bar> + 1"
    unfolding k_def to_integral_value_ROUND_DOWN_def by (auto; linarith)
  show "0 \<le> k * x"
  proof (cases "0 \<le> x")
    case True
    then have "0 \<le> k" unfolding k_def to_integral_value_ROUND_DOWN_def by simp
    with True show ?thesis by simp
  next
    case False
    then have "k \<le> 0" unfolding k_def to_integral_value_ROUND_DOWN_def
      by (simp add: ceiling_le_iff)
    with False show ?thesis by (simp add: mult_nonpos_nonpos)
  qed
qed

lemma round_tick_nonzero:
  assumes "t \<noteq> 0"
  shows "\<exists>k::int. round_tick v t = Inr (of_int k * t) \<and> \<bar>of_int k * t\<bar> \<le> \<bar>v\<bar> \<and>
           \<bar>v\<bar> < \<bar>of_int k * t\<bar> + \<bar>t\<bar> \<and> 0 \<le> of_int k * t * v"
proof -
  obtain k :: int where k: "to_integral_value_ROUND_DOWN (v / t) = of_int k"
    using to_integral_value_ROUND_DOWN_int by blast
  have pos: "0 < \<bar>t\<bar>" using assms by simp
  have v: "\<bar>v\<bar> = \<bar>v / t\<bar> * \<bar>t\<bar>" using assms by (simp add: abs_divide)
  have b1: "\<bar>of_int k :: real\<bar> \<le> \<bar>v / t\<bar>"
    using to_integral_value_ROUND_DOWN_bounds(1)[of "v / t"] k by simp
  have b2: "\<bar>v / t\<bar> < \<bar>of_int k :: real\<bar> + 1"
    using to_integral_value_ROUND_DOWN_bounds(2)[of "v / t"] k by simp
  have b3: "0 \<le> of_int k * (v / t)"
    using to_integral_value_ROUND_DOWN_bounds(3)[of "v / t"] k by simp
  have 1: "\<bar>of_int k * t\<bar> \<le> \<bar>v\<bar>"
  proof -
    have "\<bar>of_int k * t\<bar> = \<bar>of_int k :: real\<bar> * \<bar>t\<bar>" by (rule abs_mult)
    also have "\<dots> \<le> \<bar>v / t\<bar> * \<bar>t\<bar>" using b1 pos by (intro mult_right_mono) auto
    also have "\<dots> = \<bar>v\<bar>" by (rule v[symmetric])
    finally show ?thesis .
  qed
  have 2: "\<bar>v\<bar> < \<bar>of_int k * t\<bar> + \<bar>t\<bar>"
  proof -
    have "\<bar>v\<bar> = \<bar>v / t\<bar> * \<bar>t\<bar>" by (rule v)
    also have "\<dots> < (\<bar>of_int k :: real\<bar> + 1) * \<bar>t\<bar>"
      using b2 pos by (intro mult_strict_right_mono) auto
    also have "\<dots> = \<bar>of_int k * t\<bar> + \<bar>t\<bar>"
      by (simp only: abs_mult distrib_right mult_1)
    finally show ?thesis .
  qed
  have 3: "0 \<le> of_int k * t * v"
  proof -
    have "of_int k * t * v = (of_int k * (v / t)) * (t * t)" using assms by simp
    moreover have "0 \<le> (of_int k * (v / t)) * (t * t)"
      by (rule mult_nonneg_nonneg[OF b3 zero_le_square])
    ultimately show ?thesis by simp
  qed
  show ?thesis using assms k 1 2 3 by (auto simp: round_tick_def)
qed

text \<open>
  Claim C9, as amended. \<^verbatim>\<open>_round\<close> does not validate the tick. With a zero tick it fails
  with the error of the decimal division (\<open>DivisionByZero\<close>, or \<open>InvalidOperation\<close> when the
  value is zero too). With every other tick, a negative one included, it returns without
  failing: the result is an integer multiple \<open>k * t\<close> of the tick, truncated toward zero,
  that is \<open>|k*t| \<le> |v| < |k*t| + |t|\<close> with the sign of \<open>v\<close>.
\<close>

theorem round_tick_outcome:
  "(t = 0 \<longrightarrow> round_tick v t = Inl (if v = 0 then InvalidOperation else DivisionByZero)) \<and>
   (t \<noteq> 0 \<longrightarrow>
      round_tick v t = Inr (to_integral_value_ROUND_DOWN (v / t) * t) \<and>
      (\<exists>k::int. round_tick v t = Inr (of_int k * t) \<and> \<bar>of_int k * t\<bar> \<le> \<bar>v\<bar> \<and>
         \<bar>v\<bar> < \<bar>of_int k * t\<bar> + \<bar>t\<bar> \<and> 0 \<le> of_int k * t * v))"
proof (intro conjI impI)
  assume "t = 0"
  then show "round_tick v t = Inl (if v = 0 then InvalidOperation else DivisionByZero)"
    by (simp add: round_tick_def)
next
  assume "t \<noteq> 0"
  then show "round_tick v t = Inr (to_integral_value_ROUND_DOWN (v / t) * t)"
    by (simp add: round_tick_def)
next
  assume "t \<noteq> 0"
  then show "\<exists>k::int. round_tick v t = Inr (of_int k * t) \<and> \<bar>of_int k * t\<bar> \<le> \<bar>v\<bar> \<and>
         \<bar>v\<bar> < \<bar>of_int k * t\<bar> + \<bar>t\<bar> \<and> 0 \<le> of_int k * t * v"
    by (rule round_tick_nonzero)
qed

theorem round_tick_outcome_witness:
  "round_tick 0 0 = Inl InvalidOperation \<and>
   round_tick 1999.507 0 = Inl DivisionByZero \<and>
   round_tick 1999.507 0.01 = Inr 1999.5 \<and>
   (\<exists>k::int. round_tick 1999.507 0.01 = Inr (of_int k * 0.01) \<and>
      \<bar>of_int k * 0.01\<bar> \<le> \<bar>1999.507 :: real\<bar> \<and>
      \<bar>1999.507 :: real\<bar> < \<bar>of_int k * 0.01\<bar> + \<bar>0.01\<bar> \<and>
      0 \<le> of_int k * 0.01 * (1999.507 :: real))"
proof -
  have a: "round_tick 0 0 = Inl InvalidOperation"
    using round_tick_outcome [where t = 0 and v = 0] by simp
  have b: "round_tick 1999.507 0 = Inl DivisionByZero"
    using round_tick_outcome [where t = 0 and v = "1999.507"] by simp
  have c: "round_tick 1999.507 0.01 = Inr 1999.5"
    using round_tick_outcome [where t = "0.01" and v = "1999.507"]
    by (simp add: to_integral_value_ROUND_DOWN_def)
  have d: "\<exists>k::int. round_tick 1999.507 0.01 = Inr (of_int k * 0.01) \<and>
      \<bar>of_int k * 0.01\<bar> \<le> \<bar>1999.507 :: real\<bar> \<and>
      \<bar>1999.507 :: real\<bar> < \<bar>of_int k * 0.01\<bar> + \<bar>0.01\<bar> \<and>
      0 \<le> of_int k * 0.01 * (1999.507 :: real)"
  proof -
    have ne: "(0.01 :: real) \<noteq> 0" by simp
    show ?thesis
      using round_tick_outcome [where t = "0.01" and v = "1999.507"] ne by blast
  qed
  show ?thesis using a b c d by blast
qed

text \<open>
  Claim C9 as stated fails: with the negative tick \<open>-0.3\<close> the call returns \<open>0.9\<close> instead
  of failing, and with the zero tick the failure is the decimal division's, not an
  \<open>InvalidTick\<close> (the source defines no such error).
\<close>

theorem round_tick_negative_tick_returns:
  "round_tick 1 (- 0.3) = Inr 0.9 \<and> \<not> (\<exists>e. round_tick 1 (- 0.3) = Inl e) \<and>
   round_tick 1 0 = Inl DivisionByZero"
  by (simp add: round_tick_def to_integral_value_ROUND_DOWN_def)

section \<open>Take-profit\<close>


text \<open>
  Claim C10. \<^verbatim>\<open>_should_take_profit\<close> is total: on every input it returns a boolean and
  raises nothing. The only operation that can raise is the division by \<open>avgEntry\<close>, and it
  is reached only after the guard has returned for \<open>avgEntry = 0\<close>.
\<close>

theorem should_take_profit_total:
  "\<exists>b. should_take_profit qty mark avgEntry = Inr b"
  by (auto simp: should_take_profit_def bind_exn_def float_div_def Let_def)

section \<open>Inventory stop\<close>

text \<open>
  Claim C7. \<^verbatim>\<open>_should_stop_quoting\<close> is true exactly when \<open>|qty| > 100*8/2000*0.6 = 0.24\<close>;
  it is true at 0.25, false at 0.20, and its result does not depend on the mark price.
\<close>

theorem should_stop_quoting_threshold:
  "should_stop_quoting qty mark = (\<bar>qty\<bar> > 100 * 8 / 2000 * 0.6) \<and>
   should_stop_quoting qty mark = (\<bar>qty\<bar> > 0.24) \<and>
   should_stop_quoting 0.25 mark \<and>
   \<not> should_stop_quoting 0.20 mark \<and>
   should_stop_quoting qty mark = should_stop_quoting qty mark'"
  by (simp add: should_stop_quoting_def Let_def)

section \<open>Requote decision\<close>


section \<open>Requests and their trace\<close>

lemma request_placements:
  "request k f w = (r, w') \<Longrightarrow>
   placements (trace w') = placements (trace w) @ (if is_create k then [k] else [])"
  by (auto simp: request_def placements_def split: prod.splits)

lemma gather_cancel_placements:
  "gather_cancel c ids w = (rs, w') \<Longrightarrow> placements (trace w') = placements (trace w)"
proof (induction ids arbitrary: w rs w')
  case Nil
  then show ?case by simp
next
  case (Cons i ids)
  obtain r w1 where r: "request (CancelOrder i) (cancel_order c i) w = (r, w1)"
    by (cases "request (CancelOrder i) (cancel_order c i) w")
  obtain rs2 w2 where g: "gather_cancel c ids w1 = (rs2, w2)"
    by (cases "gather_cancel c ids w1")
  from Cons.prems r g have "w' = w2" by simp
  moreover have "placements (trace w2) = placements (trace w1)" using Cons.IH[OF g] .
  moreover have "placements (trace w1) = placements (trace w)"
    using request_placements[OF r] by simp
  ultimately show ?case by simp
qed

lemma gather_cancel_length:
  "gather_cancel c ids w = (rs, w') \<Longrightarrow> length rs = length ids"
  by (induction ids arbitrary: w rs w') (auto split: prod.splits)

text \<open>\<^verbatim>\<open>_cancel_all_orders\<close> and \<^verbatim>\<open>_get_position\<close> never send a \<^verbatim>\<open>create_order\<close>.\<close>

lemma cancel_all_orders_placements:
  assumes "cancel_all_orders c w = (ok, w')"
  shows "placements (trace w') = placements (trace w)"
  using assms
  unfolding cancel_all_orders_def Let_def
  by (auto split: prod.splits sum.splits if_splits
      dest!: request_placements gather_cancel_placements)

lemma get_position_mm_placements:
  "get_position_mm c w = (p, w') \<Longrightarrow> placements (trace w') = placements (trace w)"
  unfolding get_position_mm_def Let_def
  by (auto split: prod.splits sum.splits dest!: request_placements)

lemma place_quotes_placements:
  assumes "place_quotes c cfg st mark qty avg w = (r, w')"
  shows "placements (trace w') = placements (trace w) @
     (case quote_prices cfg st mark qty avg of
        Inl e \<Rightarrow> []
      | Inr q \<Rightarrow>
          if dry_run cfg then []
          else [CreateOrder BUY (bid_price q) (bid_quantity q),
                CreateOrder SELL (ask_price q) (ask_quantity q)])"
  using assms
  by (auto simp: place_quotes_def Let_def split: sum.splits prod.splits if_splits
      dest!: request_placements)

lemmas replay_simps = request_def replay_def start_def script0_def order_with_id_def

lemmas quote_simps = quote_prices_def fresh_state_def round_tick_def
  to_integral_value_ROUND_DOWN_def bind_exn_def float_div_def Let_def

section \<open>Cancel-all\<close>




section \<open>Tick multiples of the orders sent\<close>

lemma round_tick_multiple:
  "round_tick v t = Inr r \<Longrightarrow> \<exists>k::int. r = of_int k * t"
  using to_integral_value_ROUND_DOWN_int [of "v / t"]
  by (auto simp: round_tick_def split: if_splits)

text \<open>
  Every price and quantity that \<^verbatim>\<open>_place_quotes\<close> computes is a result of \<^verbatim>\<open>_round\<close>,
  so an integer multiple of its tick, in normal quoting and under loss protection.
\<close>

lemma quote_prices_rounded:
  assumes "quote_prices cfg st mark qty avg = Inr q"
  shows "(\<exists>v. round_tick v (price_tick st) = Inr (bid_price q)) \<and>
         (\<exists>v. round_tick v (price_tick st) = Inr (ask_price q)) \<and>
         (\<exists>v. round_tick v (qty_tick st) = Inr (bid_quantity q)) \<and>
         (\<exists>v. round_tick v (qty_tick st) = Inr (ask_quantity q))"
  using assms
  unfolding quote_prices_def bind_exn_def Let_def
  by (auto split: sum.splits if_splits)

lemma quote_prices_tick_multiples:
  assumes "quote_prices cfg st mark qty avg = Inr q"
  shows "(\<exists>k::int. bid_price q = of_int k * price_tick st) \<and>
         (\<exists>k::int. ask_price q = of_int k * price_tick st) \<and>
         (\<exists>k::int. bid_quantity q = of_int k * qty_tick st) \<and>
         (\<exists>k::int. ask_quantity q = of_int k * qty_tick st)"
  using quote_prices_rounded [OF assms] by (blast dest: round_tick_multiple)

text \<open>
  Claim C4 fails on the position-closing order. \<^verbatim>\<open>_close_position\<close> rounds the price but
  passes \<^verbatim>\<open>abs(position_qty)\<close> unrounded: with quantity tick 0.001 and a long position of
  0.0015 at mark 2000 it sends \<open>SELL 0.0015 @ 1998\<close>, and 0.0015 is not an integer multiple of
  0.001. (\<^verbatim>\<open>_place_quotes\<close> rounds the same \<^verbatim>\<open>abs(position_qty)\<close> to the quantity tick
  when it closes the whole position.)
\<close>

theorem close_position_quantity_unrounded:
  "trace (close_position c fresh_state 0.0015 2000 \<lparr>venue = v, trace = []\<rparr>) =
     [CreateOrder SELL 1998 0.0015] \<and>
   qty_tick fresh_state = 0.001 \<and>
   \<not> (\<exists>k::int. (0.0015 :: real) = of_int k * 0.001)"
proof -
  have a: "trace (close_position c fresh_state 0.0015 2000 \<lparr>venue = v, trace = []\<rparr>) =
     [CreateOrder SELL 1998 0.0015]"
    by (simp add: close_position_def fresh_state_def round_tick_def
        to_integral_value_ROUND_DOWN_def request_def Let_def split: prod.splits)
  have b: "qty_tick fresh_state = 0.001" by (simp add: fresh_state_def)
  have c: "\<not> (\<exists>k::int. (0.0015 :: real) = of_int k * 0.001)"
  proof
    assume "\<exists>k::int. (0.0015 :: real) = of_int k * 0.001"
    then obtain k :: int where "(0.0015 :: real) = of_int k * 0.001" by blast
    then have "(of_int (2 * k) :: real) = of_int 3" by simp
    then have "2 * k = 3" by (simp only: of_int_eq_iff)
    then show False by presburger
  qed
  show ?thesis using a b c by blast
qed

section \<open>Loss protection\<close>

text \<open>
  The quote computation returns whenever both ticks are non-zero and the mid price of the
  base quotes is non-zero; these are its only sources of an exception.
\<close>

lemma quote_prices_returns:
  assumes pt: "price_tick st \<noteq> 0" and qt: "qty_tick st \<noteq> 0"
    and b: "round_tick (mark * (1 - spread_bps cfg / 10000)) (price_tick st) = Inr baseBid"
    and a: "round_tick (mark * (1 + spread_bps cfg / 10000)) (price_tick st) = Inr baseAsk"
    and mid: "baseBid + baseAsk \<noteq> 0"
  shows "\<exists>q. quote_prices cfg st mark qty avg = Inr q"
  using assms
  unfolding quote_prices_def bind_exn_def Let_def float_div_def
  by (auto simp: round_tick_def split: sum.splits)




section \<open>Placing the quotes\<close>

lemma dry_run_default_config: "dry_run default_config"
  by (simp add: default_config_def)

lemma dry_run_live_config: "\<not> dry_run live_config"
  by (simp add: live_config_def)

lemma refresh_interval_configs:
  "refresh_interval default_config = 5" "refresh_interval live_config = 5"
  by (simp_all add: default_config_def live_config_def)

lemma quote_prices_flat:
  "quote_prices live_config fresh_state 2000 0 0 =
     Inr \<lparr>bid_price = 1998, bid_quantity = 0.025, ask_price = 2002, ask_quantity = 0.025\<rparr>"
  by (simp add: quote_simps live_config_def)

lemma quote_prices_flat_dry:
  "quote_prices default_config fresh_state 2000 0 0 =
     Inr \<lparr>bid_price = 1998, bid_quantity = 0.025, ask_price = 2002, ask_quantity = 0.025\<rparr>"
  by (simp add: quote_simps default_config_def)

text \<open>
  Claim C5, as amended. With dry run off, once the quotes are computed and the two
  \<^verbatim>\<open>create_order\<close> requests have been answered, \<^verbatim>\<open>current_bid_price\<close> is the new bid price
  if the bid request succeeded and is unchanged if it failed, \<^verbatim>\<open>current_ask_price\<close> likewise
  for the ask request, each side on its own, and no other field of the engine state changes.
  With dry run on, no request is sent and both fields are set to the computed prices. When
  the quote computation raises, no request is sent and no state is returned.
\<close>

theorem place_quotes_state:
  "(dry_run cfg \<and> quote_prices cfg st mark qty avg = Inr q \<longrightarrow>
      place_quotes c cfg st mark qty avg w =
        (Inr (st\<lparr>current_bid_price := Some (bid_price q),
                 current_ask_price := Some (ask_price q)\<rparr>), w)) \<and>
   (\<not> dry_run cfg \<and> quote_prices cfg st mark qty avg = Inr q \<and>
    request (CreateOrder BUY (bid_price q) (bid_quantity q))
      (create_order c BUY (bid_price q) (bid_quantity q)) w = (bid_result, w1) \<and>
    request (CreateOrder SELL (ask_price q) (ask_quantity q))
      (create_order c SELL (ask_price q) (ask_quantity q)) w1 = (ask_result, w2) \<longrightarrow>
      place_quotes c cfg st mark qty avg w =
        (Inr (st\<lparr>current_bid_price :=
                   (case bid_result of Inl e \<Rightarrow> current_bid_price st
                    | Inr u \<Rightarrow> Some (bid_price q)),
                 current_ask_price :=
                   (case ask_result of Inl e \<Rightarrow> current_ask_price st
                    | Inr u \<Rightarrow> Some (ask_price q))\<rparr>), w2)) \<and>
   (quote_prices cfg st mark qty avg = Inl x \<longrightarrow>
      place_quotes c cfg st mark qty avg w = (Inl x, w))"
  by (auto simp: place_quotes_def Let_def split: sum.splits)

text \<open>
  A flat book at mark 2000 where the bid is accepted and the ask is refused with HTTP 500:
  the bid price is stored, the ask price stays unset.
\<close>

theorem place_quotes_state_witness:
  "\<not> dry_run live_config \<and>
   place_quotes replay live_config fresh_state 2000 0 0
     (start (script0\<lparr>creates := [Inr (), Inl (ClientResponseError 500)]\<rparr>)) =
   (Inr (fresh_state\<lparr>current_bid_price := Some 1998, current_ask_price := None\<rparr>),
    \<lparr>venue = script0, trace = [CreateOrder BUY 1998 0.025, CreateOrder SELL 2002 0.025]\<rparr>)"
proof -
  let ?q = "\<lparr>bid_price = 1998, bid_quantity = 0.025, ask_price = 2002,
              ask_quantity = 0.025\<rparr> :: quotes"
  let ?w = "start (script0\<lparr>creates := [Inr (), Inl (ClientResponseError 500)]\<rparr>)"
  let ?w1 = "\<lparr>venue = script0\<lparr>creates := [Inl (ClientResponseError 500)]\<rparr>,
               trace = [CreateOrder BUY 1998 0.025]\<rparr>"
  let ?w2 = "\<lparr>venue = script0,
               trace = [CreateOrder BUY 1998 0.025, CreateOrder SELL 2002 0.025]\<rparr>"
  have b: "request (CreateOrder BUY (bid_price ?q) (bid_quantity ?q))
      (create_order replay BUY (bid_price ?q) (bid_quantity ?q)) ?w = (Inr (), ?w1)"
    by (simp add: replay_simps)
  have a: "request (CreateOrder SELL (ask_price ?q) (ask_quantity ?q))
      (create_order replay SELL (ask_price ?q) (ask_quantity ?q)) ?w1 =
        (Inl (ClientResponseError 500), ?w2)"
    by (simp add: replay_simps)
  show ?thesis
    using place_quotes_state [where cfg = live_config and st = fresh_state and mark = 2000
        and qty = 0 and avg = 0 and q = ?q and c = replay and w = ?w and ?w1.0 = ?w1
        and ?w2.0 = ?w2 and bid_result = "Inr ()"
        and ask_result = "Inl (ClientResponseError 500)"]
      dry_run_live_config b a quote_prices_flat
    by (simp add: fresh_state_def)
qed

text \<open>
  Claim C5 as stated fails in dry-run mode (the default of \<^verbatim>\<open>load_config\<close>): both quote
  prices, unset before, are stored although no request was sent and nothing was placed.
\<close>

theorem place_quotes_dry_run_sets_quotes:
  "current_bid_price fresh_state = None \<and> current_ask_price fresh_state = None \<and>
   place_quotes replay default_config fresh_state 2000 0 0 (start script0) =
     (Inr (fresh_state\<lparr>current_bid_price := Some 1998, current_ask_price := Some 2002\<rparr>),
      \<lparr>venue = script0, trace = []\<rparr>)"
proof -
  have n: "current_bid_price fresh_state = None \<and> current_ask_price fresh_state = None"
    by (simp add: fresh_state_def)
  have p: "place_quotes replay default_config fresh_state 2000 0 0 (start script0) =
     (Inr (fresh_state\<lparr>current_bid_price := Some 1998, current_ask_price := Some 2002\<rparr>),
      \<lparr>venue = script0, trace = []\<rparr>)"
    by (simp add: place_quotes_def quote_prices_flat_dry dry_run_default_config start_def)
  show ?thesis using n p by blast
qed

section \<open>The quote-evaluation step of a tick\<close>

text \<open>
  Claim C1, as amended. In a tick where the mark price is fetched, take-profit and the
  inventory stop do not trigger and a requote is needed: if \<^verbatim>\<open>_cancel_all_orders\<close> reports
  failure, the engine state (\<^verbatim>\<open>last_position_qty\<close> included) is unchanged and the tick sends
  no \<^verbatim>\<open>create_order\<close>; nothing is sent after the cancel at all. If it reports success and
  the quote computation returns, \<^verbatim>\<open>last_position_qty\<close> becomes the sampled position and the
  tick sends exactly the BUY and the SELL order of the computed quotes, or no order in
  dry-run mode. If it reports success and the quote computation raises (zero tick, zero mid
  price), nothing is placed and the state is unchanged.
\<close>

theorem tick_evaluate_quotes:
  assumes m: "request GetMarkPrice (get_mark_price c) w = (Inr mark, w1)"
    and p: "get_position_mm c w1 = ((qty, avg), w2)"
    and tp: "should_take_profit qty mark avg = Inr False"
    and stop: "\<not> should_stop_quoting qty mark"
    and upd: "should_update_quotes st mark qty"
    and ca: "cancel_all_orders c w2 = (cancel_success, w3)"
    and t: "tick c cfg st w = (st', w', secs)"
  shows "(\<not> cancel_success \<longrightarrow>
            st' = st \<and> w' = w3 \<and> placements (trace w') = placements (trace w)) \<and>
         (cancel_success \<longrightarrow>
            (\<forall>q. quote_prices cfg st mark qty avg = Inr q \<longrightarrow>
               last_position_qty st' = qty \<and>
               placements (trace w') = placements (trace w) @
                 (if dry_run cfg then []
                  else [CreateOrder BUY (bid_price q) (bid_quantity q),
                        CreateOrder SELL (ask_price q) (ask_quantity q)])) \<and>
            (\<forall>e. quote_prices cfg st mark qty avg = Inl e \<longrightarrow>
               st' = st \<and> w' = w3 \<and> placements (trace w') = placements (trace w)))"
proof -
  have pw1: "placements (trace w1) = placements (trace w)"
    using request_placements[OF m] by simp
  have pw2: "placements (trace w2) = placements (trace w)"
    using get_position_mm_placements[OF p] pw1 by simp
  have pw3: "placements (trace w3) = placements (trace w)"
    using cancel_all_orders_placements[OF ca] pw2 by simp
  have step: "tick c cfg st w =
      (if cancel_success then
         (case place_quotes c cfg st mark qty avg w3 of
            (Inl e, w4) \<Rightarrow> (st, w4, 5)
          | (Inr st1, w4) \<Rightarrow> (st1\<lparr>last_position_qty := qty\<rparr>, w4, refresh_interval cfg))
       else (st, w3, refresh_interval cfg))"
    using m p tp stop upd ca by (simp add: tick_def Let_def)
  show ?thesis
  proof (intro conjI impI allI)
    assume "\<not> cancel_success"
    with step t show "st' = st" and "w' = w3" by simp_all
    then show "placements (trace w') = placements (trace w)" using pw3 by simp
  next
    fix q
    assume ok: cancel_success and q: "quote_prices cfg st mark qty avg = Inr q"
    obtain r w4 where pq: "place_quotes c cfg st mark qty avg w3 = (r, w4)"
      by (cases "place_quotes c cfg st mark qty avg w3")
    from pq q obtain st1 where r: "r = Inr st1"
      by (auto simp: place_quotes_def Let_def split: if_splits prod.splits)
    from step t ok pq r have e: "st' = st1\<lparr>last_position_qty := qty\<rparr>" "w' = w4"
      by simp_all
    show "last_position_qty st' = qty" using e by simp
    show "placements (trace w') = placements (trace w) @
                 (if dry_run cfg then []
                  else [CreateOrder BUY (bid_price q) (bid_quantity q),
                        CreateOrder SELL (ask_price q) (ask_quantity q)])"
      using place_quotes_placements[OF pq] q e pw3 by simp
  next
    fix e
    assume ok: cancel_success and q: "quote_prices cfg st mark qty avg = Inl e"
    then have pq: "place_quotes c cfg st mark qty avg w3 = (Inl e, w3)"
      by (simp add: place_quotes_def)
    with step t ok show "st' = st" and "w' = w3" by simp_all
    then show "placements (trace w') = placements (trace w)" using pw3 by simp
  qed
qed

subsection \<open>Two ticks on the replay venue\<close>

lemma mark_stale:
  "request GetMarkPrice (get_mark_price replay) (start stale_venue) =
     (Inr 2000, \<lparr>venue = stale_venue\<lparr>mark_prices := []\<rparr>, trace = [GetMarkPrice]\<rparr>)"
  by (simp add: replay_simps stale_venue_def)

lemma position_stale:
  "get_position_mm replay
     \<lparr>venue = stale_venue\<lparr>mark_prices := []\<rparr>, trace = [GetMarkPrice]\<rparr> =
   ((1/20, 2000),
    \<lparr>venue = stale_venue\<lparr>mark_prices := [], positions := []\<rparr>,
     trace = [GetMarkPrice, GetPosition]\<rparr>)"
  by (simp add: get_position_mm_def replay_simps stale_venue_def)

lemma cancel_stale:
  "cancel_all_orders replay
     \<lparr>venue = stale_venue\<lparr>mark_prices := [], positions := []\<rparr>,
      trace = [GetMarkPrice, GetPosition]\<rparr> =
   (False,
    \<lparr>venue = script0\<lparr>creates := [Inr (), Inr ()]\<rparr>,
     trace = [GetMarkPrice, GetPosition, GetOpenOrders, CancelOrder 7, GetOpenOrders,
              CancelOrder 7, GetOpenOrders]\<rparr>)"
  by (simp add: cancel_all_orders_def replay_simps stale_venue_def Let_def)

lemma mark_quiet:
  "request GetMarkPrice (get_mark_price replay) (start quiet_venue) =
     (Inr 2000, \<lparr>venue = quiet_venue\<lparr>mark_prices := []\<rparr>, trace = [GetMarkPrice]\<rparr>)"
  by (simp add: replay_simps quiet_venue_def)

lemma position_quiet:
  "get_position_mm replay
     \<lparr>venue = quiet_venue\<lparr>mark_prices := []\<rparr>, trace = [GetMarkPrice]\<rparr> =
   ((1/20, 2000),
    \<lparr>venue = quiet_venue\<lparr>mark_prices := [], positions := []\<rparr>,
     trace = [GetMarkPrice, GetPosition]\<rparr>)"
  by (simp add: get_position_mm_def replay_simps quiet_venue_def)

lemma cancel_quiet:
  "cancel_all_orders replay
     \<lparr>venue = quiet_venue\<lparr>mark_prices := [], positions := []\<rparr>,
      trace = [GetMarkPrice, GetPosition]\<rparr> =
   (True,
    \<lparr>venue = script0\<lparr>creates := [Inr (), Inr ()]\<rparr>,
     trace = [GetMarkPrice, GetPosition, GetOpenOrders]\<rparr>)"
  by (simp add: cancel_all_orders_def replay_simps quiet_venue_def Let_def)

lemma no_take_profit_at_entry: "should_take_profit (1/20) 2000 2000 = Inr False"
  by (simp add: should_take_profit_def bind_exn_def float_div_def)

lemma no_stop_at_small_position: "\<not> should_stop_quoting (1/20) 2000"
  by (simp add: should_stop_quoting_def)

lemma first_tick_requotes: "should_update_quotes (fresh_state\<lparr>price_tick := t\<rparr>) 2000 (1/20)"
  by (simp add: should_update_quotes_def fresh_state_def)

lemma first_tick_requotes_fresh: "should_update_quotes fresh_state 2000 (1/20)"
  by (simp add: should_update_quotes_def fresh_state_def)

lemma quotes_at_entry:
  "quote_prices live_config fresh_state 2000 (1/20) 2000 =
     Inr \<lparr>bid_price = 1998, bid_quantity = 1/40, ask_price = 2002, ask_quantity = 1/40\<rparr>"
  by (simp add: quote_simps live_config_def)

lemma quotes_at_entry_dry:
  "quote_prices default_config fresh_state 2000 (1/20) 2000 =
     Inr \<lparr>bid_price = 1998, bid_quantity = 1/40, ask_price = 2002, ask_quantity = 1/40\<rparr>"
  by (simp add: quote_simps default_config_def)

lemma quotes_zero_tick:
  "quote_prices live_config (fresh_state\<lparr>price_tick := 0\<rparr>) 2000 (1/20) 2000 =
     Inl DivisionByZero"
  by (simp add: quote_simps live_config_def)

lemma tick_stale:
  "tick replay live_config fresh_state (start stale_venue) =
     (fresh_state,
      \<lparr>venue = script0\<lparr>creates := [Inr (), Inr ()]\<rparr>,
       trace = [GetMarkPrice, GetPosition, GetOpenOrders, CancelOrder 7, GetOpenOrders,
                CancelOrder 7, GetOpenOrders]\<rparr>, 5)"
  by (simp add: tick_def mark_stale position_stale cancel_stale no_take_profit_at_entry
      no_stop_at_small_position first_tick_requotes_fresh refresh_interval_configs)

lemma tick_quiet:
  "tick replay live_config fresh_state (start quiet_venue) =
     (fresh_state\<lparr>current_bid_price := Some 1998, current_ask_price := Some 2002,
                  last_position_qty := 1/20\<rparr>,
      \<lparr>venue = script0,
       trace = [GetMarkPrice, GetPosition, GetOpenOrders, CreateOrder BUY 1998 (1/40),
                CreateOrder SELL 2002 (1/40)]\<rparr>, 5)"
proof -
  have pq: "place_quotes replay live_config fresh_state 2000 (1/20) 2000
      \<lparr>venue = script0\<lparr>creates := [Inr (), Inr ()]\<rparr>,
       trace = [GetMarkPrice, GetPosition, GetOpenOrders]\<rparr> =
     (Inr (fresh_state\<lparr>current_bid_price := Some 1998, current_ask_price := Some 2002\<rparr>),
      \<lparr>venue = script0,
       trace = [GetMarkPrice, GetPosition, GetOpenOrders, CreateOrder BUY 1998 (1/40),
                CreateOrder SELL 2002 (1/40)]\<rparr>)"
    by (simp add: place_quotes_def quotes_at_entry dry_run_live_config request_def
        replay_def script0_def)
  show ?thesis
    by (simp add: tick_def mark_quiet position_quiet cancel_quiet no_take_profit_at_entry
        no_stop_at_small_position first_tick_requotes_fresh refresh_interval_configs pq)
qed

lemma tick_quiet_dry_run:
  "tick replay default_config fresh_state (start quiet_venue) =
     (fresh_state\<lparr>current_bid_price := Some 1998, current_ask_price := Some 2002,
                  last_position_qty := 1/20\<rparr>,
      \<lparr>venue = script0\<lparr>creates := [Inr (), Inr ()]\<rparr>,
       trace = [GetMarkPrice, GetPosition, GetOpenOrders]\<rparr>, 5)"
proof -
  have pq: "place_quotes replay default_config fresh_state 2000 (1/20) 2000
      \<lparr>venue = script0\<lparr>creates := [Inr (), Inr ()]\<rparr>,
       trace = [GetMarkPrice, GetPosition, GetOpenOrders]\<rparr> =
     (Inr (fresh_state\<lparr>current_bid_price := Some 1998, current_ask_price := Some 2002\<rparr>),
      \<lparr>venue = script0\<lparr>creates := [Inr (), Inr ()]\<rparr>,
       trace = [GetMarkPrice, GetPosition, GetOpenOrders]\<rparr>)"
    by (simp add: place_quotes_def quotes_at_entry_dry dry_run_default_config)
  show ?thesis
    by (simp add: tick_def mark_quiet position_quiet cancel_quiet no_take_profit_at_entry
        no_stop_at_small_position first_tick_requotes_fresh refresh_interval_configs pq)
qed

lemma tick_quiet_zero_tick:
  "tick replay live_config (fresh_state\<lparr>price_tick := 0\<rparr>) (start quiet_venue) =
     (fresh_state\<lparr>price_tick := 0\<rparr>,
      \<lparr>venue = script0\<lparr>creates := [Inr (), Inr ()]\<rparr>,
       trace = [GetMarkPrice, GetPosition, GetOpenOrders]\<rparr>, 5)"
proof -
  have pq: "place_quotes replay live_config (fresh_state\<lparr>price_tick := 0\<rparr>) 2000 (1/20) 2000
      \<lparr>venue = script0\<lparr>creates := [Inr (), Inr ()]\<rparr>,
       trace = [GetMarkPrice, GetPosition, GetOpenOrders]\<rparr> =
     (Inl DivisionByZero,
      \<lparr>venue = script0\<lparr>creates := [Inr (), Inr ()]\<rparr>,
       trace = [GetMarkPrice, GetPosition, GetOpenOrders]\<rparr>)"
    by (simp add: place_quotes_def quotes_zero_tick)
  show ?thesis
    by (simp add: tick_def mark_quiet position_quiet cancel_quiet no_take_profit_at_entry
        no_stop_at_small_position first_tick_requotes pq)
qed

text \<open>
  On the stale venue the cancel fails after its retry: the state is unchanged and the tick
  places nothing (both scripted placement answers are still unused). On the quiet venue
  the cancel succeeds: both orders are sent and \<^verbatim>\<open>last_position_qty\<close> becomes 0.05.
\<close>

theorem tick_evaluate_quotes_witness:
  "cancel_all_orders replay
     \<lparr>venue = stale_venue\<lparr>mark_prices := [], positions := []\<rparr>,
      trace = [GetMarkPrice, GetPosition]\<rparr> =
     (False,
      \<lparr>venue = script0\<lparr>creates := [Inr (), Inr ()]\<rparr>,
       trace = [GetMarkPrice, GetPosition, GetOpenOrders, CancelOrder 7, GetOpenOrders,
                CancelOrder 7, GetOpenOrders]\<rparr>) \<and>
   tick replay live_config fresh_state (start stale_venue) =
     (fresh_state,
      \<lparr>venue = script0\<lparr>creates := [Inr (), Inr ()]\<rparr>,
       trace = [GetMarkPrice, GetPosition, GetOpenOrders, CancelOrder 7, GetOpenOrders,
                CancelOrder 7, GetOpenOrders]\<rparr>, 5) \<and>
   placements [GetMarkPrice, GetPosition, GetOpenOrders, CancelOrder 7, GetOpenOrders,
               CancelOrder 7, GetOpenOrders] = placements (trace (start stale_venue)) \<and>
   fst (cancel_all_orders replay
     \<lparr>venue = quiet_venue\<lparr>mark_prices := [], positions := []\<rparr>,
      trace = [GetMarkPrice, GetPosition]\<rparr>) = True \<and>
   last_position_qty (fst (tick replay live_config fresh_state (start quiet_venue))) = 1/20 \<and>
   placements (trace (fst (snd (tick replay live_config fresh_state (start quiet_venue))))) =
     placements (trace (start quiet_venue)) @
       [CreateOrder BUY 1998 (1/40), CreateOrder SELL 2002 (1/40)]"
proof -
  have a: "placements [GetMarkPrice, GetPosition, GetOpenOrders, CancelOrder 7, GetOpenOrders,
                CancelOrder 7, GetOpenOrders] = placements (trace (start stale_venue))"
    using tick_evaluate_quotes [OF mark_stale position_stale no_take_profit_at_entry
        no_stop_at_small_position first_tick_requotes_fresh cancel_stale tick_stale]
    by simp
  have b: "last_position_qty (fst (tick replay live_config fresh_state (start quiet_venue))) =
      1/20 \<and>
   placements (trace (fst (snd (tick replay live_config fresh_state (start quiet_venue))))) =
     placements (trace (start quiet_venue)) @
       [CreateOrder BUY 1998 (1/40), CreateOrder SELL 2002 (1/40)]"
    using tick_evaluate_quotes [OF mark_quiet position_quiet no_take_profit_at_entry
        no_stop_at_small_position first_tick_requotes_fresh cancel_quiet tick_quiet]
      quotes_at_entry dry_run_live_config
    by (simp add: tick_quiet)
  have c: "fst (cancel_all_orders replay
     \<lparr>venue = quiet_venue\<lparr>mark_prices := [], positions := []\<rparr>,
      trace = [GetMarkPrice, GetPosition]\<rparr>) = True"
    by (simp add: cancel_quiet)
  show ?thesis using a b c cancel_stale tick_stale by blast
qed

text \<open>
  Claim C1 as stated fails in the direction "cancel succeeded, so quotes are placed and
  \<^verbatim>\<open>last_position_qty\<close> is updated". On the quiet venue the cancel reports success, yet in
  dry-run mode (the default configuration) the tick sends no order; and with dry run off
  and a price tick of 0, \<^verbatim>\<open>_round\<close> raises, the tick sends no order and
  \<^verbatim>\<open>last_position_qty\<close> stays 0 although the sampled position is 0.05.
\<close>

theorem tick_cancel_success_without_placement:
  "cancel_all_orders replay
     \<lparr>venue = quiet_venue\<lparr>mark_prices := [], positions := []\<rparr>,
      trace = [GetMarkPrice, GetPosition]\<rparr> =
     (True, \<lparr>venue = script0\<lparr>creates := [Inr (), Inr ()]\<rparr>,
            trace = [GetMarkPrice, GetPosition, GetOpenOrders]\<rparr>) \<and>
   tick replay default_config fresh_state (start quiet_venue) =
     (fresh_state\<lparr>current_bid_price := Some 1998, current_ask_price := Some 2002,
                  last_position_qty := 1/20\<rparr>,
      \<lparr>venue = script0\<lparr>creates := [Inr (), Inr ()]\<rparr>,
       trace = [GetMarkPrice, GetPosition, GetOpenOrders]\<rparr>, 5) \<and>
   tick replay live_config (fresh_state\<lparr>price_tick := 0\<rparr>) (start quiet_venue) =
     (fresh_state\<lparr>price_tick := 0\<rparr>,
      \<lparr>venue = script0\<lparr>creates := [Inr (), Inr ()]\<rparr>,
       trace = [GetMarkPrice, GetPosition, GetOpenOrders]\<rparr>, 5) \<and>
   last_position_qty (fresh_state\<lparr>price_tick := 0\<rparr>) = 0 \<and>
   placements [GetMarkPrice, GetPosition, GetOpenOrders] = []"
proof -
  have a: "last_position_qty (fresh_state\<lparr>price_tick := 0\<rparr>) = 0"
    by (simp add: fresh_state_def)
  have b: "placements [GetMarkPrice, GetPosition, GetOpenOrders] = []"
    by (simp add: placements_def)
  show ?thesis using cancel_quiet tick_quiet_dry_run tick_quiet_zero_tick a b by blast
qed

end
